theory Spec2Isabelle
  imports Main "HOL-Library.Word"
begin

unbundle bit_operations_syntax

section \<open>JavaScript values used by \<open>src/index.js\<close>\<close>

text \<open>
  A JavaScript string is a sequence of UTF-16 code units; a \<open>Buffer\<close> is a sequence of
  bytes. String literals of the source are ASCII and are written with \<open>lit\<close>. The arguments
  have the types of the JSDoc comments: \<open>secret\<close>, \<open>token\<close>, \<open>accountName\<close> and \<open>issuer\<close> are
  strings; \<open>length\<close>, \<open>timeStep\<close> and \<open>window\<close> are integers. The engine's bound on the
  length of a string is not modelled.
\<close>

type_synonym jsstring = "16 word list"
type_synonym byte = "8 word"
type_synonym buffer = "byte list"

definition lit :: "string \<Rightarrow> jsstring" where
  "lit s = map of_char s"

text \<open>
  The exceptions the code can raise. None of them is raised by a \<open>throw\<close> statement of
  the source: they come from the language (assignment to a \<open>const\<close>), from \<open>Buffer.from\<close>
  (an encoding name Node does not know), from \<open>crypto.randomInt\<close> (an empty range) and from
  \<open>encodeURIComponent\<close> (an unpaired surrogate). The string is the message.
\<close>

datatype error = TypeError string | RangeError string | URIError string

text \<open>
  A number after \<open>Math.floor\<close>: an integer, or one of the three non-finite values that a
  division by zero produces. Rounding of doubles beyond \<open>2 ^ 53\<close> is not modelled.
\<close>

datatype number = Fin int | PosInfinity | NegInfinity | NaN

section \<open>\<open>generateSecretKey\<close> (lines 13 to 21)\<close>

text \<open>
  \<open>crypto.randomInt(min, max)\<close> returns an integer \<open>n\<close> with \<open>min \<le> n < max\<close> and throws
  when the range is empty. The random source is a sequence of naturals, of which each call
  consumes the first; every value of the range can come out.
\<close>

type_synonym rng = "nat \<Rightarrow> nat"

definition randomInt :: "int \<Rightarrow> int \<Rightarrow> rng \<Rightarrow> error + (int \<times> rng)" where
  "randomInt lo hi g =
     (if lo < hi then Inr (lo + int (g 0) mod (hi - lo), (\<lambda>n. g (Suc n)))
      else Inl (RangeError ''ERR_OUT_OF_RANGE''))"

text \<open>\<open>s[i]\<close> on a string, appended to a string: out of range it is \<open>undefined\<close>.\<close>

definition charAt_append :: "jsstring \<Rightarrow> jsstring \<Rightarrow> int \<Rightarrow> jsstring" where
  "charAt_append acc s i =
     (if 0 \<le> i \<and> i < int (length s) then acc @ [s ! nat i] else acc @ lit ''undefined'')"

definition chars :: jsstring where
  "chars = lit ''ABCDEFGHIJKLMNOPQRSTUVWXYZ234567''"

text \<open>The loop \<open>for (let i = 0; i < length; i++)\<close>, with the secret built so far.\<close>

function secret_loop :: "int \<Rightarrow> int \<Rightarrow> jsstring \<Rightarrow> rng \<Rightarrow> error + (jsstring \<times> rng)" where
  "secret_loop len i secret g =
     (if i < len then
        (case randomInt 0 (int (length chars)) g of
           Inl e \<Rightarrow> Inl e
         | Inr (randomIndex, g') \<Rightarrow>
             secret_loop len (i + 1) (charAt_append secret chars randomIndex) g')
      else Inr (secret, g))"
  by pat_completeness auto
termination
  by (relation "measure (\<lambda>(len, i, secret, g). nat (len - i))") auto

definition generateSecretKey :: "rng \<Rightarrow> int \<Rightarrow> error + (jsstring \<times> rng)" where
  "generateSecretKey g len = secret_loop len 0 (lit '''') g"

section \<open>The Node runtime\<close>

text \<open>
  What the code reads from its environment: the clock (\<open>Date.now()\<close>, milliseconds since
  the epoch), the keyed digest \<open>crypto.createHmac('sha1', key).update(msg).digest()\<close> and
  the decoders of \<open>Buffer.from(string, encoding)\<close> for the encodings Node knows. The digest
  and the decoders are library code; every statement below holds for all of them.
\<close>

record runtime =
  Date_now :: int
  createHmac_sha1 :: "buffer \<Rightarrow> buffer \<Rightarrow> buffer"
  decodeString :: "string \<Rightarrow> jsstring \<Rightarrow> buffer"

text \<open>
  The encoding names of Node's \<open>Buffer\<close>, compared after lower-casing. There is no
  \<open>base32\<close> among them; \<open>Buffer.from\<close> throws \<open>ERR_UNKNOWN_ENCODING\<close>, a \<open>TypeError\<close>, for a
  string with any other name.
\<close>

definition node_encodings :: "string list" where
  "node_encodings =
     [''utf8'', ''utf-8'', ''ucs2'', ''ucs-2'', ''utf16le'', ''utf-16le'', ''latin1'',
      ''binary'', ''base64'', ''base64url'', ''hex'', ''ascii'']"

definition toLowerCase :: "string \<Rightarrow> string" where
  "toLowerCase s =
     map (\<lambda>c. if 65 \<le> (of_char c :: nat) \<and> (of_char c :: nat) \<le> 90
              then char_of ((of_char c :: nat) + 32) else c) s"

definition Buffer_from :: "runtime \<Rightarrow> jsstring \<Rightarrow> string \<Rightarrow> error + buffer" where
  "Buffer_from rt s encoding =
     (if toLowerCase encoding \<in> set node_encodings
      then Inr (decodeString rt (toLowerCase encoding) s)
      else Inl (TypeError (''Unknown encoding: '' @ encoding)))"

definition Buffer_alloc :: "nat \<Rightarrow> buffer" where
  "Buffer_alloc n = replicate n 0"

text \<open>\<open>buffer[i] = v\<close> stores \<open>v\<close> modulo 256 and does nothing out of range.\<close>

definition Buffer_set :: "buffer \<Rightarrow> int \<Rightarrow> int \<Rightarrow> buffer" where
  "Buffer_set b i v = (if 0 \<le> i \<and> i < int (length b) then b[nat i := word_of_int v] else b)"

text \<open>\<open>buffer[i]\<close> is \<open>undefined\<close> out of range, which the bitwise operators read as \<open>NaN\<close>.\<close>

definition Buffer_get :: "buffer \<Rightarrow> int \<Rightarrow> number" where
  "Buffer_get b i = (if 0 \<le> i \<and> i < int (length b) then Fin (uint (b ! nat i)) else NaN)"

section \<open>Numbers and variables\<close>

text \<open>
  The bitwise operators work on the 32-bit signed integer \<open>ToInt32\<close> of their operands:
  the value modulo \<open>2 ^ 32\<close>, and 0 for a non-finite number.
\<close>

fun ToInt32 :: "number \<Rightarrow> 32 word" where
  "ToInt32 (Fin n) = word_of_int n"
| "ToInt32 PosInfinity = 0"
| "ToInt32 NegInfinity = 0"
| "ToInt32 NaN = 0"

text \<open>\<open>Math.floor(a / 1000 / b)\<close> for integers \<open>a\<close> and \<open>b\<close>.\<close>

definition floor_quotient :: "int \<Rightarrow> int \<Rightarrow> number" where
  "floor_quotient a b =
     (if b = 0 then (if 0 < a then PosInfinity else if a < 0 then NegInfinity else NaN)
      else Fin (a div (1000 * b)))"

fun number_add :: "number \<Rightarrow> int \<Rightarrow> number" where
  "number_add (Fin a) b = Fin (a + b)"
| "number_add PosInfinity b = PosInfinity"
| "number_add NegInfinity b = NegInfinity"
| "number_add NaN b = NaN"

text \<open>\<open>a % b\<close> for integers, \<open>b\<close> not 0: the remainder has the sign of \<open>a\<close>.\<close>

definition remainder :: "int \<Rightarrow> int \<Rightarrow> int" where
  "remainder a b = sgn a * (\<bar>a\<bar> mod \<bar>b\<bar>)"

text \<open>
  A variable is declared with \<open>const\<close> or with \<open>let\<close>. Assigning to a \<open>const\<close> throws a
  \<open>TypeError\<close> when the assignment is executed; it is not an error of syntax, and the
  statements before it have run.
\<close>

datatype 'a binding = ConstBinding 'a | LetBinding 'a

fun read :: "'a binding \<Rightarrow> 'a" where
  "read (ConstBinding v) = v"
| "read (LetBinding v) = v"

fun assign :: "'a binding \<Rightarrow> 'a \<Rightarrow> error + 'a binding" where
  "assign (ConstBinding v) w = Inl (TypeError ''Assignment to constant variable.'')"
| "assign (LetBinding v) w = Inr (LetBinding w)"

section \<open>Decimal strings\<close>

function decimal :: "nat \<Rightarrow> jsstring" where
  "decimal n = (if n < 10 then [of_nat (48 + n)] else decimal (n div 10) @ [of_nat (48 + n mod 10)])"
  by pat_completeness auto
termination
  by (relation "measure id") auto

definition Number_toString :: "int \<Rightarrow> jsstring" where
  "Number_toString n = (if n < 0 then lit ''-'' @ decimal (nat (- n)) else decimal (nat n))"

definition padStart :: "jsstring \<Rightarrow> nat \<Rightarrow> 16 word \<Rightarrow> jsstring" where
  "padStart s n c = replicate (n - length s) c @ s"

section \<open>\<open>generateOTP\<close> (lines 30 to 50) and \<open>verifyOTP\<close> (lines 60 to 88)\<close>

text \<open>
  The loop of lines 35 to 38 and of lines 68 to 71:
  \<^verbatim>\<open>for (let i = 7; i >= 0; i--) { buffer[i] = time & 0xff; time >>= 8; }\<close>
  over the variable \<open>time\<close> as it is declared.
\<close>

function pack_loop :: "number binding \<Rightarrow> int \<Rightarrow> buffer \<Rightarrow> error + buffer" where
  "pack_loop time i buffer =
     (if 0 \<le> i then
        (let buffer' = Buffer_set buffer i (sint (ToInt32 (read time) AND 0xff)) in
         case assign time (Fin (sint (signed_drop_bit 8 (ToInt32 (read time))))) of
           Inl e \<Rightarrow> Inl e
         | Inr time' \<Rightarrow> pack_loop time' (i - 1) buffer')
      else Inr buffer)"
  by pat_completeness auto
termination
  by (relation "measure (\<lambda>(time, i, buffer). nat (i + 1))") auto

text \<open>
  Lines 41 to 49, and the same text at lines 75 to 83: the offset from the low four bits
  of \<open>hmac[19]\<close>, four bytes from there with the top bit masked, modulo 1000000, in
  decimal, padded with zeros to six characters.
\<close>

definition otp_string :: "buffer \<Rightarrow> jsstring" where
  "otp_string hmac =
     (let offset = sint (ToInt32 (Buffer_get hmac 19) AND 0xf);
          otp = remainder
            (sint (push_bit 24 (ToInt32 (Buffer_get hmac offset) AND 0x7f)
                   OR push_bit 16 (ToInt32 (Buffer_get hmac (offset + 1)) AND 0xff)
                   OR push_bit 8 (ToInt32 (Buffer_get hmac (offset + 2)) AND 0xff)
                   OR (ToInt32 (Buffer_get hmac (offset + 3)) AND 0xff)))
            1000000
      in padStart (Number_toString otp) 6 (of_char CHR ''0''))"

text \<open>
  \<open>generateOTP\<close>: \<open>time\<close> is a \<open>const\<close> (line 31), the key is decoded (line 32) before the
  loop runs. \<open>generateOTP_from_key\<close> is the rest of the body, lines 33 to 49, for a decoded
  key.
\<close>

definition generateOTP_from_key :: "runtime \<Rightarrow> number binding \<Rightarrow> buffer \<Rightarrow> error + jsstring" where
  "generateOTP_from_key rt time key =
     (case pack_loop time 7 (Buffer_alloc 8) of
        Inl e \<Rightarrow> Inl e
      | Inr buffer \<Rightarrow> Inr (otp_string (createHmac_sha1 rt key buffer)))"

definition generateOTP :: "runtime \<Rightarrow> jsstring \<Rightarrow> int \<Rightarrow> error + jsstring" where
  "generateOTP rt secret timeStep =
     (let time = ConstBinding (floor_quotient (Date_now rt) timeStep) in
      case Buffer_from rt secret ''base32'' of
        Inl e \<Rightarrow> Inl e
      | Inr key \<Rightarrow> generateOTP_from_key rt time key)"

text \<open>
  \<open>verifyOTP\<close>: the loop over \<open>errorWindow\<close> from \<open>-window\<close> while \<open>errorWindow <= window\<close>.
  In its body \<open>time\<close> is a \<open>const\<close> (line 65), and the key is decoded (line 73) after the
  inner loop.
\<close>

function verify_loop ::
  "runtime \<Rightarrow> jsstring \<Rightarrow> jsstring \<Rightarrow> int \<Rightarrow> number \<Rightarrow> int \<Rightarrow> error + bool" where
  "verify_loop rt secret token window currentTime errorWindow =
     (if errorWindow \<le> window then
        (let time = ConstBinding (number_add currentTime errorWindow) in
         case pack_loop time 7 (Buffer_alloc 8) of
           Inl e \<Rightarrow> Inl e
         | Inr buffer \<Rightarrow>
             (case Buffer_from rt secret ''base32'' of
                Inl e \<Rightarrow> Inl e
              | Inr key \<Rightarrow>
                  if otp_string (createHmac_sha1 rt key buffer) = token then Inr True
                  else verify_loop rt secret token window currentTime (errorWindow + 1)))
      else Inr False)"
  by pat_completeness auto
termination
  by (relation "measure (\<lambda>(rt, secret, token, window, currentTime, errorWindow).
        nat (window + 1 - errorWindow))") auto

definition verifyOTP :: "runtime \<Rightarrow> jsstring \<Rightarrow> jsstring \<Rightarrow> int \<Rightarrow> error + bool" where
  "verifyOTP rt secret token window =
     (let timeStep = 30; currentTime = floor_quotient (Date_now rt) timeStep in
      verify_loop rt secret token window currentTime (- window))"

section \<open>\<open>generateOtpauthURL\<close> (lines 98 to 108)\<close>

text \<open>
  \<open>encodeURIComponent\<close> is the language's: it walks the code units of the string; a code
  unit of the unescaped set (letters, digits and \<open>_ - . ! ~ * ' ( )\<close>) is copied; anything
  else is read as a code point (a surrogate pair as one), and each octet of its UTF-8 form
  is written as \<open>%\<close> and two upper-case hexadecimal digits. An unpaired surrogate throws a
  \<open>URIError\<close>.
\<close>

definition uriUnescaped :: jsstring where
  "uriUnescaped =
     lit ''ABCDEFGHIJKLMNOPQRSTUVWXYZabcdefghijklmnopqrstuvwxyz0123456789_-.!~*'' @ [0x27]
       @ lit ''()''"

definition is_leading_surrogate :: "16 word \<Rightarrow> bool" where
  "is_leading_surrogate c = (0xD800 \<le> c \<and> c \<le> 0xDBFF)"

definition is_trailing_surrogate :: "16 word \<Rightarrow> bool" where
  "is_trailing_surrogate c = (0xDC00 \<le> c \<and> c \<le> 0xDFFF)"

definition surrogate_pair_to_code_point :: "16 word \<Rightarrow> 16 word \<Rightarrow> nat" where
  "surrogate_pair_to_code_point lead trail =
     (unat lead - 0xD800) * 0x400 + (unat trail - 0xDC00) + 0x10000"

definition utf8_octets :: "nat \<Rightarrow> byte list" where
  "utf8_octets cp =
     (if cp < 0x80 then [of_nat cp]
      else if cp < 0x800 then [of_nat (0xC0 + cp div 64), of_nat (0x80 + cp mod 64)]
      else if cp < 0x10000 then
        [of_nat (0xE0 + cp div 4096), of_nat (0x80 + cp div 64 mod 64),
         of_nat (0x80 + cp mod 64)]
      else
        [of_nat (0xF0 + cp div 262144), of_nat (0x80 + cp div 4096 mod 64),
         of_nat (0x80 + cp div 64 mod 64), of_nat (0x80 + cp mod 64)])"

definition hex_digit :: "nat \<Rightarrow> 16 word" where
  "hex_digit d = (if d < 10 then of_nat (48 + d) else of_nat (55 + d))"

definition percent_octet :: "byte \<Rightarrow> jsstring" where
  "percent_octet b = [0x25, hex_digit (unat b div 16), hex_digit (unat b mod 16)]"

definition escape_code_point :: "nat \<Rightarrow> jsstring" where
  "escape_code_point cp = concat (map percent_octet (utf8_octets cp))"

definition malformed :: error where
  "malformed = URIError ''URI malformed''"

fun Encode :: "jsstring \<Rightarrow> error + jsstring" where
  "Encode [] = Inr []"
| "Encode (C # rest) =
     (if C \<in> set uriUnescaped then
        (case Encode rest of Inl e \<Rightarrow> Inl e | Inr R \<Rightarrow> Inr (C # R))
      else if is_leading_surrogate C then
        (case rest of
           [] \<Rightarrow> Inl malformed
         | D # rest' \<Rightarrow>
             if is_trailing_surrogate D then
               (case Encode rest' of
                  Inl e \<Rightarrow> Inl e
                | Inr R \<Rightarrow> Inr (escape_code_point (surrogate_pair_to_code_point C D) @ R))
             else Inl malformed)
      else if is_trailing_surrogate C then Inl malformed
      else
        (case Encode rest of
           Inl e \<Rightarrow> Inl e
         | Inr R \<Rightarrow> Inr (escape_code_point (unat C) @ R)))"

definition encodeURIComponent :: "jsstring \<Rightarrow> error + jsstring" where
  "encodeURIComponent s = Encode s"

text \<open>
  The template literal of lines 103 to 107 evaluates its parts from left to right: the
  issuer is encoded, then the account name, then the issuer once more; the secret is
  inserted as it is.
\<close>

definition generateOtpauthURL :: "jsstring \<Rightarrow> jsstring \<Rightarrow> jsstring \<Rightarrow> error + jsstring" where
  "generateOtpauthURL secret accountName issuer =
     (case encodeURIComponent issuer of
        Inl e \<Rightarrow> Inl e
      | Inr issuer1 \<Rightarrow>
          (case encodeURIComponent accountName of
             Inl e \<Rightarrow> Inl e
           | Inr accountName1 \<Rightarrow>
               (case encodeURIComponent issuer of
                  Inl e \<Rightarrow> Inl e
                | Inr issuer2 \<Rightarrow>
                    Inr (lit ''otpauth://totp/'' @ issuer1 @ lit '':'' @ accountName1
                         @ lit ''?secret='' @ secret @ lit ''&issuer='' @ issuer2))))"

section \<open>The specification's words, for comparison\<close>

text \<open>
  \<open>percentEncode\<close> is the percent-encoding of a URI component as the specification
  describes it, on the text that a string stands for: the string is read as its sequence of
  Unicode code points; a code point that is an unreserved character stays; every other one
  becomes the \<open>%HH\<close> of the octets of its UTF-8 form. The unreserved characters of a URI
  component are the ASCII letters, the digits and the marks \<open>_ - . ! ~ * ' ( )\<close>, given here
  by their ranges. The encoding is defined on the whole string and has no error;
  \<open>well_formed\<close> says that a string has no unpaired surrogate.
\<close>

fun code_points :: "jsstring \<Rightarrow> nat list" where
  "code_points [] = []"
| "code_points [c] = [unat c]"
| "code_points (c # d # rest) =
     (if is_leading_surrogate c \<and> is_trailing_surrogate d
      then surrogate_pair_to_code_point c d # code_points rest
      else unat c # code_points (d # rest))"

fun well_formed :: "jsstring \<Rightarrow> bool" where
  "well_formed [] = True"
| "well_formed [c] = (\<not> is_leading_surrogate c \<and> \<not> is_trailing_surrogate c)"
| "well_formed (c # d # rest) =
     (if is_leading_surrogate c then is_trailing_surrogate d \<and> well_formed rest
      else \<not> is_trailing_surrogate c \<and> well_formed (d # rest))"

definition unreserved :: "nat \<Rightarrow> bool" where
  "unreserved cp =
     ((0x41 \<le> cp \<and> cp \<le> 0x5A) \<or> (0x61 \<le> cp \<and> cp \<le> 0x7A) \<or> (0x30 \<le> cp \<and> cp \<le> 0x39)
      \<or> cp \<in> set [0x5F, 0x2D, 0x2E, 0x21, 0x7E, 0x2A, 0x27, 0x28, 0x29])"

definition percentEncode_code_point :: "nat \<Rightarrow> jsstring" where
  "percentEncode_code_point cp =
     (if unreserved cp then [of_nat cp] else concat (map percent_octet (utf8_octets cp)))"

definition percentEncode :: "jsstring \<Rightarrow> jsstring" where
  "percentEncode s = concat (map percentEncode_code_point (code_points s))"

text \<open>A decimal digit, for the format of a code.\<close>

definition is_digit :: "16 word \<Rightarrow> bool" where
  "is_digit c = (0x30 \<le> c \<and> c \<le> 0x39)"

section \<open>Concrete instances\<close>

text \<open>A random source for concrete instances: the naturals in their order.\<close>

definition counting_source :: rng where
  "counting_source n = n"

text \<open>
  A runtime for concrete instances: its clock reads the given time; its digest and its
  decoders are placeholders, which no instance below calls.
\<close>

definition clock_runtime :: "int \<Rightarrow> runtime" where
  "clock_runtime now =
     \<lparr>Date_now = now, createHmac_sha1 = (\<lambda>key msg. replicate 20 0),
      decodeString = (\<lambda>encoding s. [])\<rparr>"

section \<open>Properties of \<open>generateSecretKey\<close>\<close>

lemma length_chars: "length chars = 32"
  by (simp add: chars_def lit_def)

lemma randomInt_chars:
  "randomInt 0 (int (length chars)) g = Inr (int (g 0 mod 32), (\<lambda>n. g (Suc n)))"
  by (simp add: randomInt_def length_chars zmod_int)

lemma charAt_append_chars:
  "charAt_append acc chars (int (k mod 32)) = acc @ [chars ! (k mod 32)]"
  by (simp add: charAt_append_def length_chars)

declare secret_loop.simps [simp del]

lemma secret_loop_result:
  "\<exists>suffix g'. secret_loop len i secret g = Inr (secret @ suffix, g')
      \<and> length suffix = nat (len - i) \<and> set suffix \<subseteq> set chars"
proof (induction len i secret g rule: secret_loop.induct)
  case (1 len i secret g)
  show ?case
  proof (cases "i < len")
    case False
    then show ?thesis
      by (simp add: secret_loop.simps [of len i])
  next
    case True
    let ?c = "chars ! (g 0 mod 32)"
    have step: "secret_loop len i secret g
        = secret_loop len (i + 1) (secret @ [?c]) (\<lambda>n. g (Suc n))"
      using True
      by (simp add: secret_loop.simps [of len i] randomInt_chars charAt_append_chars)
    have "randomInt 0 (int (length chars)) g = Inr (int (g 0 mod 32), (\<lambda>n. g (Suc n)))"
      by (rule randomInt_chars)
    from "1.IH" [OF True this refl]
    obtain suffix g' where
      rest: "secret_loop len (i + 1) (charAt_append secret chars (int (g 0 mod 32)))
               (\<lambda>n. g (Suc n)) = Inr (charAt_append secret chars (int (g 0 mod 32)) @ suffix, g')"
      and len: "length suffix = nat (len - (i + 1))"
      and sub: "set suffix \<subseteq> set chars"
      by blast
    have mem: "?c \<in> set chars"
      by (simp add: length_chars)
    have "secret_loop len i secret g = Inr (secret @ (?c # suffix), g')"
      using step rest by (simp add: charAt_append_chars)
    moreover have "length (?c # suffix) = nat (len - i)"
      using len True by simp
    moreover have "set (?c # suffix) \<subseteq> set chars"
      using sub mem by simp
    ultimately show ?thesis
      by blast
  qed
qed

text \<open>With the random source that counts from 0, the first five symbols come out in order.\<close>

lemma generateSecretKey_example:
  "map_sum id fst (generateSecretKey counting_source 5) = Inr (lit ''ABCDE'')"
  by code_simp

text \<open>
  C8. For every positive integer \<open>n\<close>, \<open>generateSecretKey(n)\<close> returns (it does not throw) a
  string of exactly \<open>n\<close> characters, each of them one of the 32 symbols
  \<open>ABCDEFGHIJKLMNOPQRSTUVWXYZ234567\<close>, whatever the random source gives.
\<close>

theorem generateSecretKey_alphabet:
  assumes "0 < n"
  shows "\<exists>secret g'. generateSecretKey g n = Inr (secret, g')
           \<and> int (length secret) = n
           \<and> set secret \<subseteq> set (lit ''ABCDEFGHIJKLMNOPQRSTUVWXYZ234567'')"
proof -
  obtain suffix g' where
    r: "secret_loop n 0 (lit '''') g = Inr (lit '''' @ suffix, g')"
    and l: "length suffix = nat (n - 0)"
    and s: "set suffix \<subseteq> set chars"
    using secret_loop_result [of n 0 "lit ''''" g] by blast
  have "generateSecretKey g n = Inr (suffix, g')"
    using r by (simp add: generateSecretKey_def lit_def)
  moreover have "int (length suffix) = n"
    using l assms by simp
  moreover have "set suffix \<subseteq> set (lit ''ABCDEFGHIJKLMNOPQRSTUVWXYZ234567'')"
    using s by (simp only: chars_def)
  ultimately show ?thesis
    by blast
qed

theorem generateSecretKey_alphabet_witness:
  "(0::int) < 3
   \<and> (\<exists>secret g'. generateSecretKey counting_source 3 = Inr (secret, g')
        \<and> int (length secret) = 3
        \<and> set secret \<subseteq> set (lit ''ABCDEFGHIJKLMNOPQRSTUVWXYZ234567''))"
  using generateSecretKey_alphabet [of 3 counting_source] by simp

section \<open>What the two OTP functions do\<close>

text \<open>\<open>Buffer.from(secret, 'base32')\<close> throws for every string: Node has no such encoding.\<close>

lemma Buffer_from_base32:
  "Buffer_from rt s ''base32'' = Inl (TypeError ''Unknown encoding: base32'')"
  by (simp add: Buffer_from_def toLowerCase_def node_encodings_def)

text \<open>
  The packing loop throws in its first round when \<open>time\<close> is a \<open>const\<close>: \<open>buffer[i]\<close> is
  written, then \<open>time >>= 8\<close> assigns to the constant.
\<close>

lemma pack_loop_const:
  "0 \<le> i \<Longrightarrow>
     pack_loop (ConstBinding t) i b = Inl (TypeError ''Assignment to constant variable.'')"
  by (simp add: Let_def)

lemma pack_loop_const_7:
  "pack_loop (ConstBinding t) 7 b = Inl (TypeError ''Assignment to constant variable.'')"
  by (rule pack_loop_const) simp

declare pack_loop.simps [simp del]
declare verify_loop.simps [simp del]

lemma verify_loop_enters:
  "errorWindow \<le> window \<Longrightarrow>
     verify_loop rt secret token window currentTime errorWindow
       = Inl (TypeError ''Assignment to constant variable.'')"
  by (simp add: verify_loop.simps [of rt secret token window currentTime errorWindow]
      pack_loop_const_7 Let_def)

lemma verify_loop_skips:
  "\<not> errorWindow \<le> window \<Longrightarrow>
     verify_loop rt secret token window currentTime errorWindow = Inr False"
  by (simp add: verify_loop.simps [of rt secret token window currentTime errorWindow])

lemma verifyOTP_cases:
  "verifyOTP rt secret token window =
     (if 0 \<le> window then Inl (TypeError ''Assignment to constant variable.'') else Inr False)"
  by (simp add: verifyOTP_def Let_def verify_loop_enters verify_loop_skips)

lemma generateOTP_throws:
  "generateOTP rt secret timeStep = Inl (TypeError ''Unknown encoding: base32'')"
  by (simp add: generateOTP_def Let_def Buffer_from_base32)

text \<open>
  Were the key decoded, \<open>generateOTP\<close> would throw all the same, in the packing loop over
  its constant \<open>time\<close>.
\<close>

lemma generateOTP_from_key_throws:
  "generateOTP_from_key rt (ConstBinding t) key
     = Inl (TypeError ''Assignment to constant variable.'')"
  by (simp add: generateOTP_from_key_def pack_loop_const_7)

lemma secret_loop_skips:
  "\<not> i < len \<Longrightarrow> secret_loop len i secret g = Inr (secret, g)"
  by (simp add: secret_loop.simps [of len i])

text \<open>
  C1. The known-answer test of RFC 6238: the secret is the Base32 text of the ASCII bytes
  \<open>12345678901234567890\<close>, the clock reads 59 seconds, \<open>timeStep\<close> is 30, and the expected
  code is \<open>287082\<close>. The code returns no string there: \<open>Buffer.from(secret, 'base32')\<close> at
  line 32 throws a \<open>TypeError\<close>, whatever the digest function is.
\<close>

theorem generateOTP_known_answer_throws:
  "generateOTP (rt\<lparr>Date_now := 59000\<rparr>) (lit ''GEZDGNBVGY3TQOJQGEZDGNBVGY3TQOJQ'') 30
     = Inl (TypeError ''Unknown encoding: base32'')
   \<and> generateOTP (rt\<lparr>Date_now := 59000\<rparr>) (lit ''GEZDGNBVGY3TQOJQGEZDGNBVGY3TQOJQ'') 30
     \<noteq> Inr (lit ''287082'')"
  by (simp add: generateOTP_throws)

text \<open>
  C2. The counter is to be packed into 8 big-endian bytes. For every counter, the loop of
  lines 35 to 38 (and of lines 68 to 71) over the constant \<open>time\<close> produces no buffer: it
  throws a \<open>TypeError\<close> at \<open>time >>= 8\<close> in its first round.
\<close>

theorem counter_packing_throws:
  "pack_loop (ConstBinding (Fin counter)) 7 (Buffer_alloc 8)
     = Inl (TypeError ''Assignment to constant variable.'')"
  by (rule pack_loop_const_7)

text \<open>
  C3, as the code has it. There is no validation of arguments and no error for an invalid
  argument: \<open>generateSecretKey\<close> with a length of 0 or less returns the empty string, and
  \<open>verifyOTP\<close> with a negative window returns false.
\<close>

theorem no_argument_validation:
  assumes "len \<le> 0" and "window < 0"
  shows "generateSecretKey g len = Inr (lit '''', g)
         \<and> verifyOTP rt secret token window = Inr False"
  using assms by (simp add: generateSecretKey_def secret_loop_skips verifyOTP_cases)

theorem no_argument_validation_witness:
  "(0::int) \<le> 0 \<and> (- 1 :: int) < 0
   \<and> generateSecretKey counting_source 0 = Inr (lit '''', counting_source)
   \<and> verifyOTP (clock_runtime 59000) (lit ''GEZDGNBVGY3TQOJQ'') (lit ''287082'') (- 1)
       = Inr False"
  using no_argument_validation [of 0 "- 1" counting_source "clock_runtime 59000"
      "lit ''GEZDGNBVGY3TQOJQ''" "lit ''287082''"]
  by simp

text \<open>
  C3, as the specification has it, fails: a length of \<open>-5\<close> and a window of \<open>-2\<close> raise
  nothing.
\<close>

theorem argument_validation_counterexample:
  "generateSecretKey counting_source (- 5) = Inr (lit '''', counting_source)
   \<and> verifyOTP (clock_runtime 0) (lit ''GEZDGNBVGY3TQOJQ'') (lit ''000000'') (- 2) = Inr False"
  by (simp add: generateSecretKey_def secret_loop_skips verifyOTP_cases)

text \<open>
  C4. The round trip \<open>verifyOTP(secret, generateOTP(secret), 0)\<close> at one clock time: for
  every secret, \<open>generateOTP\<close> throws, and \<open>verifyOTP\<close> with window 0 throws for every token.
\<close>

theorem round_trip_throws:
  "generateOTP rt secret 30 = Inl (TypeError ''Unknown encoding: base32'')
   \<and> verifyOTP rt secret token 0 = Inl (TypeError ''Assignment to constant variable.'')"
  by (simp add: generateOTP_throws verifyOTP_cases)

text \<open>
  C5. What \<open>verifyOTP\<close> returns for every secret, token and window: with a window of 0 or
  more it throws a \<open>TypeError\<close> in the first round of its loop, before any candidate code
  is computed; with a negative window it returns false. It never returns true.
\<close>

theorem verifyOTP_window_throws:
  "verifyOTP rt secret token window =
     (if 0 \<le> window then Inl (TypeError ''Assignment to constant variable.'') else Inr False)
   \<and> verifyOTP rt secret token window \<noteq> Inr True"
  by (simp add: verifyOTP_cases)

text \<open>
  C6. For every secret, time step and clock, \<open>generateOTP\<close> returns no string at all, so
  no string of six digits.
\<close>

theorem generateOTP_returns_no_string:
  "generateOTP rt secret timeStep \<noteq> Inr code"
  by (simp add: generateOTP_throws)

text \<open>
  C7. A token of the wrong length with a character that is no digit, and the default
  window 1: \<open>verifyOTP\<close> throws instead of returning false.
\<close>

theorem verifyOTP_malformed_token_throws:
  "verifyOTP rt secret (lit ''12a'') 1 = Inl (TypeError ''Assignment to constant variable.'')"
  by (simp add: verifyOTP_cases)

text \<open>
  C10. The two copies of the computation at one counter \<open>c\<close>: \<open>generateOTP\<close> with the clock
  inside step \<open>c\<close>, and one round of the loop of \<open>verifyOTP\<close> with candidate counter \<open>c\<close>.
  Neither computes a string. They do not even fail alike: \<open>generateOTP\<close> decodes the key
  first and throws there, the loop of \<open>verifyOTP\<close> packs the counter first and throws there.
\<close>

theorem duplicated_paths_both_throw:
  "generateOTP (rt\<lparr>Date_now := 30000 * c\<rparr>) secret 30
     = Inl (TypeError ''Unknown encoding: base32'')
   \<and> verify_loop rt secret token 0 (Fin c) 0
     = Inl (TypeError ''Assignment to constant variable.'')"
  by (simp add: generateOTP_throws verify_loop_enters)

section \<open>The arithmetic of the two loops' bodies\<close>

text \<open>
  The packing loop over a variable that can be assigned: the bitwise operators keep the low
  32 bits of the counter and shift with the sign, so only counters below \<open>2 ^ 31\<close> come out
  as their 8 big-endian bytes.
\<close>

lemma pack_loop_let_examples:
  "pack_loop (LetBinding (Fin 1)) 7 (Buffer_alloc 8) = Inr [0, 0, 0, 0, 0, 0, 0, 1]"
  "pack_loop (LetBinding (Fin 4294967296)) 7 (Buffer_alloc 8) = Inr [0, 0, 0, 0, 0, 0, 0, 0]"
  "pack_loop (LetBinding (Fin 2147483648)) 7 (Buffer_alloc 8)
     = Inr [255, 255, 255, 255, 128, 0, 0, 0]"
  by code_simp+

text \<open>
  The expression of lines 41 to 49, taken alone, gives six decimal digits for every
  digest, whatever its length.
\<close>

declare decimal.simps [simp del]

lemma digit_char: "d < 10 \<Longrightarrow> is_digit (of_nat (48 + d))"
proof -
  assume "d < 10"
  then have "d \<in> {0, 1, 2, 3, 4, 5, 6, 7, 8, 9}" by auto
  then show ?thesis by (auto simp: is_digit_def)
qed

lemma digit_char_sum: "d < 10 \<Longrightarrow> is_digit (48 + word_of_nat d)"
  using digit_char [of d] by simp

lemma decimal_digits: "list_all is_digit (decimal n)"
proof (induction n rule: decimal.induct)
  case (1 n)
  show ?case
  proof (cases "n < 10")
    case True
    then show ?thesis by (simp add: decimal.simps [of n] digit_char_sum)
  next
    case False
    then show ?thesis using 1 by (simp add: decimal.simps [of n] digit_char_sum)
  qed
qed

lemma decimal_length: "n < 10 ^ Suc k \<Longrightarrow> length (decimal n) \<le> Suc k"
proof (induction k arbitrary: n)
  case 0
  then show ?case by (simp add: decimal.simps [of n])
next
  case (Suc k)
  show ?case
  proof (cases "n < 10")
    case True
    then show ?thesis by (simp add: decimal.simps [of n])
  next
    case False
    have "n div 10 < 10 ^ Suc k" using Suc.prems by (simp add: less_mult_imp_div_less)
    then have "length (decimal (n div 10)) \<le> Suc k" by (rule Suc.IH)
    then show ?thesis using False by (simp add: decimal.simps [of n])
  qed
qed

lemma and_7f: "\<not> bit (x AND 0x7f :: 32 word) 7"
proof -
  have "(0x7f :: 32 word) = mask 7" by (simp add: mask_eq_exp_minus_1)
  then show ?thesis by (simp add: bit_and_iff bit_mask_iff)
qed

lemma and_ff: "7 < n \<Longrightarrow> \<not> bit (x AND 0xff :: 32 word) n"
proof -
  assume n: "7 < n"
  have e: "(0xff :: 32 word) = mask 8" by (simp add: mask_eq_exp_minus_1)
  have "\<not> bit (x AND mask 8 :: 32 word) n"
    using n by (simp only: bit_and_iff bit_mask_iff) simp
  then show ?thesis unfolding e .
qed

lemma push_24_top: "bit (push_bit 24 (y :: 32 word)) 31 = bit y 7"
  by (simp add: bit_push_bit_iff)

lemma push_16_top: "bit (push_bit 16 (y :: 32 word)) 31 = bit y 15"
  by (simp add: bit_push_bit_iff)

lemma push_8_top: "bit (push_bit 8 (y :: 32 word)) 31 = bit y 23"
  by (simp add: bit_push_bit_iff)

lemma truncated_top_bit:
  fixes a b c d :: "32 word"
  shows "\<not> bit (push_bit 24 (a AND 0x7f) OR push_bit 16 (b AND 0xff)
                  OR push_bit 8 (c AND 0xff) OR (d AND 0xff)) 31"
  by (simp only: bit_or_iff push_24_top push_16_top push_8_top) (simp add: and_7f and_ff)

lemma sint_nonneg_32:
  fixes w :: "32 word"
  shows "\<not> bit w 31 \<Longrightarrow> 0 \<le> sint w"
  using bit_last_iff [of w] by simp

lemma remainder_range:
  "0 \<le> a \<Longrightarrow> 0 \<le> remainder a 1000000 \<and> remainder a 1000000 < 1000000"
  by (cases "a = 0") (simp_all add: remainder_def)

lemma otp_string_six_digits:
  "length (otp_string hmac) = 6 \<and> list_all is_digit (otp_string hmac)"
proof -
  define offset where "offset = sint (ToInt32 (Buffer_get hmac 19) AND 0xf)"
  define t where "t = sint (push_bit 24 (ToInt32 (Buffer_get hmac offset) AND 0x7f)
                   OR push_bit 16 (ToInt32 (Buffer_get hmac (offset + 1)) AND 0xff)
                   OR push_bit 8 (ToInt32 (Buffer_get hmac (offset + 2)) AND 0xff)
                   OR (ToInt32 (Buffer_get hmac (offset + 3)) AND 0xff))"
  define otp where "otp = remainder t 1000000"
  have "0 \<le> t"
    unfolding t_def by (rule sint_nonneg_32) (rule truncated_top_bit)
  then have r: "0 \<le> otp" "otp < 1000000"
    using remainder_range [of t] by (simp_all add: otp_def)
  have s: "otp_string hmac = padStart (Number_toString otp) 6 (of_char CHR ''0'')"
    by (simp add: otp_string_def Let_def otp_def t_def offset_def)
  have n: "Number_toString otp = decimal (nat otp)"
    using r by (simp add: Number_toString_def)
  have "nat otp < 10 ^ Suc 5" using r by simp
  then have l: "length (decimal (nat otp)) \<le> 6"
    using decimal_length [of "nat otp" 5] by simp
  have z: "is_digit (of_char CHR ''0'')" by (simp add: is_digit_def)
  show ?thesis
    using l z decimal_digits [of "nat otp"]
    by (auto simp: s n padStart_def list_all_iff)
qed

section \<open>\<open>encodeURIComponent\<close> against the specification's percent-encoding\<close>

text \<open>The unescaped set of \<open>encodeURIComponent\<close> is the set of unreserved characters.\<close>

lemma unescaped_units:
  "map unat uriUnescaped = [0x41..<0x5B] @ [0x61..<0x7B] @ [0x30..<0x3A]
      @ [0x5F, 0x2D, 0x2E, 0x21, 0x7E, 0x2A, 0x27, 0x28, 0x29]"
  by (simp add: uriUnescaped_def lit_def)

lemma le_less_numeral:
  "(n \<le> 0x5A) = (n < (0x5B::nat))" "(n \<le> 0x7A) = (n < (0x7B::nat))"
  "(n \<le> 0x39) = (n < (0x3A::nat))"
  by arith+

lemma units_unreserved: "n \<in> set (map unat uriUnescaped) \<longleftrightarrow> unreserved n"
  unfolding unescaped_units unreserved_def le_less_numeral
  by (simp only: set_append set_upt Un_iff atLeastLessThan_iff disj_assoc)

lemma unreserved_iff: "C \<in> set uriUnescaped \<longleftrightarrow> unreserved (unat C)"
proof -
  have "unat C \<in> unat ` set uriUnescaped \<Longrightarrow> C \<in> set uriUnescaped"
  proof -
    assume "unat C \<in> unat ` set uriUnescaped"
    then obtain D where d: "D \<in> set uriUnescaped" and e: "unat C = unat D"
      by auto
    from e have "C = D"
      using word_unat_eq_iff [of C D] by blast
    with d show ?thesis by simp
  qed
  then have "C \<in> set uriUnescaped \<longleftrightarrow> unat C \<in> unat ` set uriUnescaped"
    by blast
  then show ?thesis
    using units_unreserved [of "unat C"] by simp
qed

lemma unreserved_ascii: "unreserved n \<Longrightarrow> n < 0x80"
  by (auto simp: unreserved_def)

lemma unescaped_facts:
  assumes "C \<in> set uriUnescaped"
  shows "\<not> is_leading_surrogate C" "\<not> is_trailing_surrogate C"
    "percentEncode_code_point (unat C) = [C]"
proof -
  have u: "unreserved (unat C)"
    using assms by (simp only: unreserved_iff)
  then have lt: "unat C < 0x80"
    by (rule unreserved_ascii)
  then show "\<not> is_leading_surrogate C" "\<not> is_trailing_surrogate C"
    by (auto simp: is_leading_surrogate_def is_trailing_surrogate_def word_le_nat_alt)
  show "percentEncode_code_point (unat C) = [C]"
    using u by (simp add: percentEncode_code_point_def)
qed

lemma surrogates_disjoint: "is_leading_surrogate c \<Longrightarrow> \<not> is_trailing_surrogate c"
  by (auto simp: is_leading_surrogate_def is_trailing_surrogate_def word_le_nat_alt)

lemma escaped_unit:
  assumes "C \<notin> set uriUnescaped"
  shows "percentEncode_code_point (unat C) = escape_code_point (unat C)"
  using assms by (simp add: percentEncode_code_point_def escape_code_point_def unreserved_iff)

lemma escaped_pair:
  "percentEncode_code_point (surrogate_pair_to_code_point C D)
     = escape_code_point (surrogate_pair_to_code_point C D)"
proof -
  have "\<not> surrogate_pair_to_code_point C D < 0x80"
    by (simp add: surrogate_pair_to_code_point_def)
  then have "\<not> unreserved (surrogate_pair_to_code_point C D)"
    using unreserved_ascii by blast
  then show ?thesis
    by (simp add: percentEncode_code_point_def escape_code_point_def)
qed

lemma Encode_refines:
  "Encode s = (if well_formed s then Inr (percentEncode s) else Inl malformed)"
proof (induction s rule: well_formed.induct)
  case 1
  show ?case by (simp add: percentEncode_def)
next
  case (2 c)
  show ?case
    by (auto simp: percentEncode_def unescaped_facts escaped_unit surrogates_disjoint)
next
  case (3 c d rest)
  show ?case
  proof (cases "c \<in> set uriUnescaped")
    case True
    with 3 unescaped_facts [OF True] show ?thesis
      by (simp add: percentEncode_def del: Encode.simps well_formed.simps
            add: Encode.simps(2) [of c] well_formed.simps(3))
  next
    case False
    with 3 show ?thesis
      by (simp add: percentEncode_def escaped_unit escaped_pair surrogates_disjoint
            del: Encode.simps add: Encode.simps(2) [of c])
  qed
qed

lemma encodeURIComponent_cases:
  "encodeURIComponent s = (if well_formed s then Inr (percentEncode s) else Inl malformed)"
  by (simp only: encodeURIComponent_def Encode_refines)

text \<open>
  C9, as the code has it. For every secret, and for every account name and issuer that
  have no unpaired surrogate, \<open>generateOtpauthURL\<close> returns exactly
  \<open>otpauth://totp/{percentEncode(issuer)}:{percentEncode(accountName)}?secret={secret}&issuer={percentEncode(issuer)}\<close>
  with the secret as it is; when the account name or the issuer has an unpaired surrogate,
  it throws a \<open>URIError\<close>.
\<close>

theorem generateOtpauthURL_format:
  "generateOtpauthURL secret accountName issuer =
     (if well_formed issuer \<and> well_formed accountName
      then Inr (lit ''otpauth://totp/'' @ percentEncode issuer @ lit '':''
                @ percentEncode accountName @ lit ''?secret='' @ secret
                @ lit ''&issuer='' @ percentEncode issuer)
      else Inl (URIError ''URI malformed''))"
  by (simp add: generateOtpauthURL_def encodeURIComponent_cases malformed_def)

theorem generateOtpauthURL_format_witness:
  "generateOtpauthURL (lit ''JBSWY3DPEHPK3PXP'') (lit ''user@example.com'') (lit ''My App'')
     = Inr (lit
        ''otpauth://totp/My%20App:user%40example.com?secret=JBSWY3DPEHPK3PXP&issuer=My%20App'')"
  using generateOtpauthURL_format
    [of "lit ''JBSWY3DPEHPK3PXP''" "lit ''user@example.com''" "lit ''My App''"]
  by (simp add: lit_def percentEncode_def percentEncode_code_point_def unreserved_def
        is_leading_surrogate_def is_trailing_surrogate_def utf8_octets_def percent_octet_def
        hex_digit_def)

text \<open>
  C9, as the specification has it, fails: an account name that is one leading surrogate
  gives no string.
\<close>

theorem generateOtpauthURL_counterexample:
  "generateOtpauthURL (lit ''JBSWY3DPEHPK3PXP'') [0xD83D] (lit ''MyApp'')
     = Inl (URIError ''URI malformed'')"
  by (simp add: generateOtpauthURL_def encodeURIComponent_def lit_def uriUnescaped_def
        malformed_def is_leading_surrogate_def is_trailing_surrogate_def escape_code_point_def
        utf8_octets_def percent_octet_def hex_digit_def)

end
